theory Spec2Isabelle
  imports Main "HOL-Library.Word"
begin

section \<open>The active-record layer of pkg/models/table\_record\<close>

text \<open>
  The development embeds \<^verbatim>\<open>pkg/models/table_record/table_record.go\<close>. The Go functions mutate
  the entity they are given through a pointer and talk to a database through the
  \<^verbatim>\<open>db.SQLConnector\<close> interface. Here every function takes the entity and the state of the
  database and returns the error, the entity as it is after the call and the new state.
  A Go result \<^verbatim>\<open>(x, err)\<close> is a pair whose second component is \<open>None\<close> for \<^verbatim>\<open>nil\<close>;
  a \<^verbatim>\<open>nil\<close> slice is the empty list.
\<close>

subsection \<open>Values, errors and the connector\<close>

type_synonym int64 = "64 word"

text \<open>The dynamic values (\<^verbatim>\<open>interface{}\<close>) bound to the placeholders of a statement.\<close>

datatype sqlval = Null | Int64 int64 | Text string

text \<open>
  An error is either made locally with \<^verbatim>\<open>errors.New\<close> or comes out of the connector
  (connection failure, malformed SQL, a column that does not fit its field).
\<close>

datatype error = errors_New string | ConnectorError string

text \<open>\<^verbatim>\<open>sql.Result\<close>: what its two methods return.\<close>

record Result =
  LastInsertId :: "error + int64"
  RowsAffected :: "error + int64"

text \<open>
  A row under the cursor of \<^verbatim>\<open>sqlx.Rows\<close> is represented by what \<^verbatim>\<open>StructScan\<close> does with
  it: given the mapped fields of the destination struct it returns the error and the
  fields after the scan (on an error some fields may already have been assigned).
\<close>

type_synonym 'f row = "'f \<Rightarrow> error option \<times> 'f"

text \<open>
  \<^verbatim>\<open>db.SQLConnector\<close> is an interface whose implementation is outside the repository, so
  the connector is a record of its methods, each a transformer of the state \<open>'w\<close> of the
  outside world (the stored tables, the connection). A prepared statement is identified
  with the text it was prepared from; \<open>Stmt_Exec\<close> and \<open>Stmt_Queryx\<close> are the methods
  of \<^verbatim>\<open>sql.Stmt\<close> and \<^verbatim>\<open>sqlx.Stmt\<close>.
\<close>

record ('w, 'f) SQLConnector =
  Exec :: "string \<Rightarrow> sqlval list \<Rightarrow> 'w \<Rightarrow> (error + Result) \<times> 'w"
  Prepare :: "string \<Rightarrow> 'w \<Rightarrow> error option \<times> 'w"
  Preparex :: "string \<Rightarrow> 'w \<Rightarrow> error option \<times> 'w"
  Queryx :: "string \<Rightarrow> 'w \<Rightarrow> (error + 'f row list) \<times> 'w"
  Stmt_Exec :: "string \<Rightarrow> sqlval list \<Rightarrow> 'w \<Rightarrow> (error + Result) \<times> 'w"
  Stmt_Queryx :: "string \<Rightarrow> sqlval list \<Rightarrow> 'w \<Rightarrow> (error + 'f row list) \<times> 'w"

text \<open>
  The calls that reach the connector are recorded, in order, next to the state of the
  world. \<^verbatim>\<open>Close\<close> returns an error that the code drops (it is always deferred), so
  closing only leaves its mark in the record of calls.
\<close>

datatype call =
    Exec_call string "sqlval list"
  | Prepare_call string
  | Preparex_call string
  | Queryx_call string
  | Stmt_Exec_call string "sqlval list"
  | Stmt_Queryx_call string "sqlval list"
  | Stmt_Close_call string
  | Rows_Close_call

record 'w dbstate =
  world :: 'w
  calls :: "call list"

definition db_Exec ::
  "('w, 'f) SQLConnector \<Rightarrow> string \<Rightarrow> sqlval list \<Rightarrow> 'w dbstate \<Rightarrow> (error + Result) \<times> 'w dbstate" where
  "db_Exec c query params s =
     (case Exec c query params (world s) of
        (r, w) \<Rightarrow> (r, \<lparr>world = w, calls = calls s @ [Exec_call query params]\<rparr>))"

definition db_Prepare ::
  "('w, 'f) SQLConnector \<Rightarrow> string \<Rightarrow> 'w dbstate \<Rightarrow> error option \<times> 'w dbstate" where
  "db_Prepare c query s =
     (case Prepare c query (world s) of
        (r, w) \<Rightarrow> (r, \<lparr>world = w, calls = calls s @ [Prepare_call query]\<rparr>))"

definition db_Preparex ::
  "('w, 'f) SQLConnector \<Rightarrow> string \<Rightarrow> 'w dbstate \<Rightarrow> error option \<times> 'w dbstate" where
  "db_Preparex c query s =
     (case Preparex c query (world s) of
        (r, w) \<Rightarrow> (r, \<lparr>world = w, calls = calls s @ [Preparex_call query]\<rparr>))"

definition db_Queryx ::
  "('w, 'f) SQLConnector \<Rightarrow> string \<Rightarrow> 'w dbstate \<Rightarrow> (error + 'f row list) \<times> 'w dbstate" where
  "db_Queryx c query s =
     (case Queryx c query (world s) of
        (r, w) \<Rightarrow> (r, \<lparr>world = w, calls = calls s @ [Queryx_call query]\<rparr>))"

definition stmt_Exec ::
  "('w, 'f) SQLConnector \<Rightarrow> string \<Rightarrow> sqlval list \<Rightarrow> 'w dbstate \<Rightarrow> (error + Result) \<times> 'w dbstate" where
  "stmt_Exec c stmt params s =
     (case Stmt_Exec c stmt params (world s) of
        (r, w) \<Rightarrow> (r, \<lparr>world = w, calls = calls s @ [Stmt_Exec_call stmt params]\<rparr>))"

definition stmt_Queryx ::
  "('w, 'f) SQLConnector \<Rightarrow> string \<Rightarrow> sqlval list \<Rightarrow> 'w dbstate \<Rightarrow> (error + 'f row list) \<times> 'w dbstate" where
  "stmt_Queryx c stmt params s =
     (case Stmt_Queryx c stmt params (world s) of
        (r, w) \<Rightarrow> (r, \<lparr>world = w, calls = calls s @ [Stmt_Queryx_call stmt params]\<rparr>))"

definition stmt_Close :: "string \<Rightarrow> 'w dbstate \<Rightarrow> 'w dbstate" where
  "stmt_Close stmt s = s\<lparr>calls := calls s @ [Stmt_Close_call stmt]\<rparr>"

definition rows_Close :: "'w dbstate \<Rightarrow> 'w dbstate" where
  "rows_Close s = s\<lparr>calls := calls s @ [Rows_Close_call]\<rparr>"

subsection \<open>The record state and the entity\<close>

text \<open>
  Modelled from the spec: \<^verbatim>\<open>builder.Builder\<close> (package query\_builder) is not among the
  sources. It is the transient state of the Query Builder, the accumulated clauses and
  their bound parameters; the code reads its field \<^verbatim>\<open>Params\<close>.
\<close>

record Builder =
  Clauses :: "string list"
  Params :: "sqlval list"

text \<open>
  Modelled from the spec: \<^verbatim>\<open>BuildQuery\<close> renders the current clauses into a parametrized
  statement over the table.
\<close>

definition BuildQuery :: "Builder \<Rightarrow> string \<Rightarrow> string" where
  "BuildQuery b tableName = ''SELECT * FROM '' @ tableName @ concat (Clauses b)"

text \<open>
  The struct \<^verbatim>\<open>TableRecord\<close>. The connector reference is always set: an entity whose
  \<^verbatim>\<open>db\<close> is \<^verbatim>\<open>nil\<close> panics at its first connector call and is outside the model.
\<close>

record ('w, 'f) TableRecord =
  isNew :: bool
  isReadOnly :: bool
  builder :: Builder
  db :: "('w, 'f) SQLConnector"

text \<open>
  Modelled from the spec: \<^verbatim>\<open>ResetStmt\<close> clears the accumulated predicates and parameters.
\<close>

definition ResetStmt :: "('w, 'f) TableRecord \<Rightarrow> ('w, 'f) TableRecord" where
  "ResetStmt t = t\<lparr>builder := \<lparr>Clauses = [], Params = []\<rparr>\<rparr>"

text \<open>
  A value of \<^verbatim>\<open>TableRecordInterface\<close>: the mapped fields \<open>'f\<close> of the concrete struct, its
  embedded \<^verbatim>\<open>TableRecord\<close>, and the methods of the interface. \<open>FieldMapper\<close> is the
  ordered mapping from column name to field accessor that the code obtains by reflection.
\<close>

record ('w, 'f) TableRecordInterface =
  mapped :: 'f
  GetTableRecord :: "('w, 'f) TableRecord"
  GetPrimaryKeyName :: string
  PrimaryKeyValue :: "'f \<Rightarrow> int64"
  GetTableName :: string
  FieldMapper :: "(string \<times> ('f \<Rightarrow> sqlval)) list"

type_synonym ('w, 'f) NewTableModel = "('w, 'f) TableRecordInterface"

definition GetPrimaryKeyValue :: "('w, 'f) TableRecordInterface \<Rightarrow> int64" where
  "GetPrimaryKeyValue ti = PrimaryKeyValue ti (mapped ti)"

text \<open>
  Modelled from the spec: \<^verbatim>\<open>GetFieldMapper\<close>, \<^verbatim>\<open>getFieldsValueNoPrimary\<close> and the three
  query generators belong to the package but are not among the sources. The Field Mapper
  gives the ordered column names and the field values; the values to write leave out the
  primary-key column; the generators render
  \<^verbatim>\<open>INSERT INTO <table> (<cols except PK>) VALUES (<placeholders>)\<close>,
  \<^verbatim>\<open>UPDATE <table> SET <col=?,...> WHERE <PK> = ?\<close> and
  \<^verbatim>\<open>DELETE FROM <table> WHERE <PK> = ?\<close>.
\<close>

definition strings_Join :: "string list \<Rightarrow> string \<Rightarrow> string" where
  "strings_Join elems sep = concat (case elems of [] \<Rightarrow> [] | e # es \<Rightarrow> e # map (\<lambda>x. sep @ x) es)"

definition GetFieldMapper :: "('w, 'f) TableRecordInterface \<Rightarrow> string list \<times> sqlval list" where
  "GetFieldMapper ti =
     (map fst (FieldMapper ti), map (\<lambda>(col, acc). acc (mapped ti)) (FieldMapper ti))"

definition columnsNoPrimary :: "('w, 'f) TableRecordInterface \<Rightarrow> string list" where
  "columnsNoPrimary ti = filter (\<lambda>col. col \<noteq> GetPrimaryKeyName ti) (map fst (FieldMapper ti))"

definition getFieldsValueNoPrimary :: "('w, 'f) TableRecordInterface \<Rightarrow> sqlval list" where
  "getFieldsValueNoPrimary ti =
     map (\<lambda>(col, acc). acc (mapped ti))
       (filter (\<lambda>(col, acc). col \<noteq> GetPrimaryKeyName ti) (FieldMapper ti))"

definition genSaveQuery :: "('w, 'f) TableRecordInterface \<Rightarrow> string" where
  "genSaveQuery ti =
     ''INSERT INTO '' @ GetTableName ti @ '' ('' @ strings_Join (columnsNoPrimary ti) '','' @
     '') VALUES ('' @ strings_Join (map (\<lambda>col. ''?'') (columnsNoPrimary ti)) '','' @ '')''"

definition genUpdateQuery :: "('w, 'f) TableRecordInterface \<Rightarrow> string" where
  "genUpdateQuery ti =
     ''UPDATE '' @ GetTableName ti @ '' SET '' @
     strings_Join (map (\<lambda>col. col @ ''=?'') (columnsNoPrimary ti)) '','' @
     '' WHERE '' @ GetPrimaryKeyName ti @ '' = ?''"

definition genDeleteQuery :: "('w, 'f) TableRecordInterface \<Rightarrow> string" where
  "genDeleteQuery ti = ''DELETE FROM '' @ GetTableName ti @ '' WHERE '' @ GetPrimaryKeyName ti @ '' = ?''"

subsection \<open>The functions of table\_record.go\<close>

definition getTableRecordConnection :: "('w, 'f) TableRecordInterface \<Rightarrow> ('w, 'f) SQLConnector" where
  "getTableRecordConnection ti = db (GetTableRecord ti)"

definition SetIsNew :: "bool \<Rightarrow> ('w, 'f) TableRecord \<Rightarrow> ('w, 'f) TableRecord" where
  "SetIsNew new t = t\<lparr>isNew := new\<rparr>"

definition SetSQLConnection :: "('w, 'f) SQLConnector \<Rightarrow> ('w, 'f) TableRecord \<Rightarrow> ('w, 'f) TableRecord" where
  "SetSQLConnection c t = t\<lparr>db := c\<rparr>"

text \<open>
  \<^verbatim>\<open>NewTableRecord\<close> of the source sets the two flags and leaves \<^verbatim>\<open>db\<close> unset; the
  constructor of the entity attaches the connector with \<^verbatim>\<open>SetSQLConnection\<close>. Here the
  connector is given at once, so that a record never lacks it.
\<close>

definition NewTableRecord :: "bool \<Rightarrow> bool \<Rightarrow> ('w, 'f) SQLConnector \<Rightarrow> ('w, 'f) TableRecord" where
  "NewTableRecord isNew' isReadOnly' c =
     SetSQLConnection c \<lparr>isNew = isNew', isReadOnly = isReadOnly',
       builder = \<lparr>Clauses = [], Params = []\<rparr>, db = c\<rparr>"

definition executeSaveUpdateQuery ::
  "('w, 'f) TableRecord \<Rightarrow> string \<Rightarrow> sqlval list \<Rightarrow> 'w dbstate \<Rightarrow> (int64 \<times> error option) \<times> 'w dbstate" where
  "executeSaveUpdateQuery t query params s =
     (case db_Exec (db t) query params s of
        (Inl err, s1) \<Rightarrow> ((0, Some err), s1)
      | (Inr res, s1) \<Rightarrow>
          (case LastInsertId res of
             Inl err \<Rightarrow> ((0, Some err), s1)
           | Inr lastID \<Rightarrow> ((lastID, None), s1)))"

definition AllField :: "('w, 'f) TableRecordInterface \<Rightarrow> string" where
  "AllField ti = (case GetFieldMapper ti of (fieldName, _) \<Rightarrow> strings_Join fieldName '','')"

definition LoadFromRow ::
  "'f row \<Rightarrow> ('w, 'f) TableRecordInterface \<Rightarrow> error option \<times> ('w, 'f) TableRecordInterface" where
  "LoadFromRow r tri =
     (case r (mapped tri) of
        (Some err, f) \<Rightarrow> (Some err, tri\<lparr>mapped := f\<rparr>)
      | (None, f) \<Rightarrow>
          (None, tri\<lparr>mapped := f,
             GetTableRecord := SetSQLConnection (db (GetTableRecord tri))
                                 (SetIsNew False (GetTableRecord tri))\<rparr>))"

definition LoadByID ::
  "('w, 'f) TableRecordInterface \<Rightarrow> int64 \<Rightarrow> 'w dbstate \<Rightarrow>
     error option \<times> ('w, 'f) TableRecordInterface \<times> 'w dbstate" where
  "LoadByID ti id' s =
     (let c = getTableRecordConnection ti;
          query = ''SELECT '' @ AllField ti @ '' FROM '' @ GetTableName ti @
                  '' WHERE '' @ GetPrimaryKeyName ti @ '' = ?'';
          params = [Int64 id']
      in case db_Preparex c query s of
           (Some err, s1) \<Rightarrow> (Some err, ti, s1)
         | (None, s1) \<Rightarrow>
             (case stmt_Queryx c query params s1 of
                (Inl err, s2) \<Rightarrow> (Some err, ti, stmt_Close query s2)
              | (Inr rows, s2) \<Rightarrow>
                  (case rows of
                     [] \<Rightarrow> (None, ti, stmt_Close query (rows_Close s2))
                   | r # _ \<Rightarrow>
                       (case LoadFromRow r ti of
                          (Some err, ti') \<Rightarrow> (Some err, ti', stmt_Close query (rows_Close s2))
                        | (None, ti') \<Rightarrow> (None, ti', stmt_Close query (rows_Close s2))))))"

definition save ::
  "('w, 'f) TableRecordInterface \<Rightarrow> 'w dbstate \<Rightarrow>
     error option \<times> ('w, 'f) TableRecordInterface \<times> 'w dbstate" where
  "save ti s =
     (let t = GetTableRecord ti;
          query = genSaveQuery ti;
          fValue = getFieldsValueNoPrimary ti
      in case executeSaveUpdateQuery t query fValue s of
           ((_, Some err), s1) \<Rightarrow> (Some err, ti, s1)
         | ((id', None), s1) \<Rightarrow>
             (case LoadByID ti id' s1 of
                (Some err, ti', s2) \<Rightarrow> (Some err, ti', s2)
              | (None, ti', s2) \<Rightarrow>
                  (None, ti'\<lparr>GetTableRecord := SetIsNew False (GetTableRecord ti')\<rparr>, s2)))"

definition update ::
  "('w, 'f) TableRecordInterface \<Rightarrow> 'w dbstate \<Rightarrow>
     error option \<times> ('w, 'f) TableRecordInterface \<times> 'w dbstate" where
  "update ti s =
     (let t = GetTableRecord ti;
          query = genUpdateQuery ti;
          fValue = getFieldsValueNoPrimary ti
      in case executeSaveUpdateQuery t query (fValue @ [Int64 (GetPrimaryKeyValue ti)]) s of
           ((_, Some err), s1) \<Rightarrow> (Some err, ti, s1)
         | ((_, None), s1) \<Rightarrow>
             (case LoadByID ti (GetPrimaryKeyValue ti) s1 of
                (Some err, ti', s2) \<Rightarrow> (Some err, ti', s2)
              | (None, ti', s2) \<Rightarrow> (None, ti', s2)))"

definition Save ::
  "('w, 'f) TableRecordInterface \<Rightarrow> 'w dbstate \<Rightarrow>
     error option \<times> ('w, 'f) TableRecordInterface \<times> 'w dbstate" where
  "Save ti s =
     (let t = GetTableRecord ti
      in if isReadOnly t then (Some (errors_New ''Read-only model''), ti, s)
         else if isNew t then
           (case save ti s of
              (Some err, ti', s') \<Rightarrow> (Some err, ti', s')
            | (None, ti', s') \<Rightarrow> (None, ti', s'))
         else
           (case update ti s of
              (Some err, ti', s') \<Rightarrow> (Some err, ti', s')
            | (None, ti', s') \<Rightarrow> (None, ti', s')))"

text \<open>
  The loop \<^verbatim>\<open>for rows.Next() { ... }\<close> of \<^verbatim>\<open>All\<close> and \<^verbatim>\<open>ExecQuery\<close>: every row is scanned
  into a fresh entity made by the constructor and appended to the result; the first scan
  that fails returns \<^verbatim>\<open>nil\<close> and the error.
\<close>

fun loadRows ::
  "('w, 'f) NewTableModel \<Rightarrow> 'f row list \<Rightarrow> ('w, 'f) TableRecordInterface list \<Rightarrow>
     ('w, 'f) TableRecordInterface list \<times> error option" where
  "loadRows ntm [] result = (result, None)"
| "loadRows ntm (r # rows) result =
     (case LoadFromRow r ntm of
        (Some err, _) \<Rightarrow> ([], Some err)
      | (None, ti) \<Rightarrow> loadRows ntm rows (result @ [ti]))"

text \<open>The function \<^verbatim>\<open>All\<close>; its name here avoids the quantifier of HOL.\<close>

definition All_records ::
  "('w, 'f) NewTableModel \<Rightarrow> 'w dbstate \<Rightarrow>
     (('w, 'f) TableRecordInterface list \<times> error option) \<times> 'w dbstate" where
  "All_records ntm s =
     (let pivot = ntm;
          c = db (GetTableRecord pivot);
          query = ''SELECT '' @ AllField pivot @ '' FROM '' @ GetTableName pivot
      in case db_Queryx c query s of
           (Inl err, s1) \<Rightarrow> (([], Some err), s1)
         | (Inr rows, s1) \<Rightarrow> (loadRows ntm rows [], s1))"

definition Delete ::
  "('w, 'f) TableRecordInterface \<Rightarrow> 'w dbstate \<Rightarrow> (int64 \<times> error option) \<times> 'w dbstate" where
  "Delete ti s =
     (let c = getTableRecordConnection ti;
          stmt = genDeleteQuery ti
      in case db_Prepare c stmt s of
           (Some err, s1) \<Rightarrow> ((0, Some err), s1)
         | (None, s1) \<Rightarrow>
             (case stmt_Exec c stmt [Int64 (GetPrimaryKeyValue ti)] s1 of
                (Inl err, s2) \<Rightarrow> ((0, Some err), stmt_Close stmt s2)
              | (Inr res, s2) \<Rightarrow>
                  (case RowsAffected res of
                     Inl err \<Rightarrow> ((0, None), stmt_Close stmt s2)
                   | Inr rows \<Rightarrow> ((rows, None), stmt_Close stmt s2))))"

definition PrepareStmt ::
  "('w, 'f) TableRecord \<Rightarrow> string \<Rightarrow> 'w dbstate \<Rightarrow> (error + string) \<times> 'w dbstate" where
  "PrepareStmt t tableName s =
     (let c = db t;
          query = BuildQuery (builder t) tableName
      in case db_Preparex c query s of
           (Some err, s1) \<Rightarrow> (Inl err, s1)
         | (None, s1) \<Rightarrow> (Inr query, s1))"

definition ExecQuery ::
  "('w, 'f) TableRecordInterface \<Rightarrow> ('w, 'f) NewTableModel \<Rightarrow> 'w dbstate \<Rightarrow>
     (('w, 'f) TableRecordInterface list \<times> error option) \<times> ('w, 'f) TableRecordInterface \<times> 'w dbstate" where
  "ExecQuery ti ntm s =
     (let t = GetTableRecord ti
      in case PrepareStmt t (GetTableName ti) s of
           (Inl err, s1) \<Rightarrow> (([], Some err), ti, s1)
         | (Inr stmt, s1) \<Rightarrow>
             (case stmt_Queryx (db t) stmt (Params (builder t)) s1 of
                (Inl err, s2) \<Rightarrow> (([], Some err), ti, stmt_Close stmt s2)
              | (Inr rows, s2) \<Rightarrow>
                  (case loadRows ntm rows [] of
                     (_, Some err) \<Rightarrow> (([], Some err), ti, stmt_Close stmt (rows_Close s2))
                   | (tiList, None) \<Rightarrow>
                       ((tiList, None),
                        ti\<lparr>GetTableRecord := ResetStmt (GetTableRecord ti)\<rparr>,
                        stmt_Close stmt (rows_Close s2)))))"

definition GetDB :: "('w, 'f) TableRecord \<Rightarrow> ('w, 'f) SQLConnector" where
  "GetDB t = db t"

definition IsNew :: "('w, 'f) TableRecord \<Rightarrow> bool" where
  "IsNew t = isNew t"

text \<open>The text of the query that \<^verbatim>\<open>LoadByID\<close> prepares and runs.\<close>

definition loadByIDQuery :: "('w, 'f) TableRecordInterface \<Rightarrow> string" where
  "loadByIDQuery ti =
     ''SELECT '' @ AllField ti @ '' FROM '' @ GetTableName ti @
     '' WHERE '' @ GetPrimaryKeyName ti @ '' = ?''"

subsection \<open>A table of users held in memory\<close>

text \<open>
  The entity of the repository's test (\<^verbatim>\<open>models/table/users_test.go\<close>): a user with a
  name, a last name and a gender, stored in the table \<^verbatim>\<open>users\<close> under the key \<^verbatim>\<open>id\<close>.
  The connector \<open>mem\<close> keeps the rows in a list: \<open>Exec\<close> inserts three values under the
  next key or updates the row named by a fourth, a prepared statement deletes or selects
  by key, and \<open>Queryx\<close> returns every row. It serves as the concrete input of the
  examples below.
\<close>

record User =
  ID :: int64
  Name :: string
  Lastname :: string
  Gender :: string

record memdb =
  table :: "User list"
  nextID :: int64

definition row_of :: "User \<Rightarrow> User row" where
  "row_of u = (\<lambda>dest. (None, u))"

fun mem_Exec :: "string \<Rightarrow> sqlval list \<Rightarrow> memdb \<Rightarrow> (error + Result) \<times> memdb" where
  "mem_Exec query [Text n, Text l, Text g] w =
     (Inr \<lparr>LastInsertId = Inr (nextID w), RowsAffected = Inr 1\<rparr>,
      \<lparr>table = \<lparr>ID = nextID w, Name = n, Lastname = l, Gender = g\<rparr> # table w,
       nextID = nextID w + 1\<rparr>)"
| "mem_Exec query [Text n, Text l, Text g, Int64 k] w =
     (Inr \<lparr>LastInsertId = Inr 0,
           RowsAffected = Inr (of_nat (length (filter (\<lambda>u. ID u = k) (table w))))\<rparr>,
      w\<lparr>table := map (\<lambda>u. if ID u = k then \<lparr>ID = k, Name = n, Lastname = l, Gender = g\<rparr> else u)
                    (table w)\<rparr>)"
| "mem_Exec query params w = (Inl (ConnectorError ''wrong parameters''), w)"

fun mem_Stmt_Exec :: "string \<Rightarrow> sqlval list \<Rightarrow> memdb \<Rightarrow> (error + Result) \<times> memdb" where
  "mem_Stmt_Exec stmt [Int64 k] w =
     (Inr \<lparr>LastInsertId = Inr 0,
           RowsAffected = Inr (of_nat (length (filter (\<lambda>u. ID u = k) (table w))))\<rparr>,
      w\<lparr>table := filter (\<lambda>u. ID u \<noteq> k) (table w)\<rparr>)"
| "mem_Stmt_Exec stmt params w = (Inl (ConnectorError ''wrong parameters''), w)"

fun mem_Stmt_Queryx :: "string \<Rightarrow> sqlval list \<Rightarrow> memdb \<Rightarrow> (error + User row list) \<times> memdb" where
  "mem_Stmt_Queryx stmt [Int64 k] w = (Inr (map row_of (filter (\<lambda>u. ID u = k) (table w))), w)"
| "mem_Stmt_Queryx stmt params w = (Inr (map row_of (table w)), w)"

definition mem :: "(memdb, User) SQLConnector" where
  "mem = \<lparr>Exec = mem_Exec,
          Prepare = (\<lambda>query w. (None, w)),
          Preparex = (\<lambda>query w. (None, w)),
          Queryx = (\<lambda>query w. (Inr (map row_of (table w)), w)),
          Stmt_Exec = mem_Stmt_Exec,
          Stmt_Queryx = mem_Stmt_Queryx\<rparr>"

definition NewUser ::
  "bool \<Rightarrow> bool \<Rightarrow> (memdb, User) SQLConnector \<Rightarrow> User \<Rightarrow> (memdb, User) TableRecordInterface" where
  "NewUser isNew' isReadOnly' c u =
     \<lparr>mapped = u,
      GetTableRecord = NewTableRecord isNew' isReadOnly' c,
      GetPrimaryKeyName = ''id'',
      PrimaryKeyValue = ID,
      GetTableName = ''users'',
      FieldMapper = [(''id'', \<lambda>u. Int64 (ID u)), (''name'', \<lambda>u. Text (Name u)),
                     (''lastname'', \<lambda>u. Text (Lastname u)), (''gender'', \<lambda>u. Text (Gender u))]\<rparr>"

definition mario :: User where
  "mario = \<lparr>ID = 0, Name = ''Mario'', Lastname = ''Rossi'', Gender = ''M''\<rparr>"

definition mario1 :: User where
  "mario1 = \<lparr>ID = 1, Name = ''Mario'', Lastname = ''Rossi'', Gender = ''M''\<rparr>"

definition marco1 :: User where
  "marco1 = \<lparr>ID = 1, Name = ''Marco'', Lastname = ''Rossi'', Gender = ''M''\<rparr>"

definition db0 :: "memdb dbstate" where
  "db0 = \<lparr>world = \<lparr>table = [], nextID = 1\<rparr>, calls = []\<rparr>"

definition db1 :: "memdb dbstate" where
  "db1 = \<lparr>world = \<lparr>table = [mario1], nextID = 2\<rparr>, calls = []\<rparr>"

text \<open>
  Connectors that fail in one place each: the connection is lost before the next
  statement is prepared; the query of a prepared statement fails; the driver does not
  report the number of affected rows; the second row of every cursor does not fit the
  destination struct.
\<close>

definition mem_prepare_fails :: "(memdb, User) SQLConnector" where
  "mem_prepare_fails = mem\<lparr>Preparex := (\<lambda>query w. (Some (ConnectorError ''connection lost''), w))\<rparr>"

definition mem_query_fails :: "(memdb, User) SQLConnector" where
  "mem_query_fails =
     mem\<lparr>Stmt_Queryx := (\<lambda>stmt params w. (Inl (ConnectorError ''connection lost''), w))\<rparr>"

definition mem_no_rows_affected :: "(memdb, User) SQLConnector" where
  "mem_no_rows_affected =
     mem\<lparr>Stmt_Exec := (\<lambda>stmt params w.
            (case mem_Stmt_Exec stmt params w of
               (Inl err, w') \<Rightarrow> (Inl err, w')
             | (Inr res, w') \<Rightarrow>
                 (Inr (res\<lparr>RowsAffected := Inl (ConnectorError ''RowsAffected is not supported'')\<rparr>),
                  w')))\<rparr>"

definition bad_row :: "User row" where
  "bad_row = (\<lambda>dest. (Some (ConnectorError ''converting NULL to string is unsupported''), dest))"

definition mem_bad_row :: "(memdb, User) SQLConnector" where
  "mem_bad_row =
     mem\<lparr>Queryx := (\<lambda>query w. (Inr (map row_of (table w) @ [bad_row]), w)),
         Stmt_Queryx := (\<lambda>stmt params w. (Inr (map row_of (table w) @ [bad_row]), w))\<rparr>"


text \<open>An entity with a predicate staged on its Query Builder.\<close>

definition staged ::
  "(memdb, User) TableRecordInterface \<Rightarrow> (memdb, User) TableRecordInterface" where
  "staged ti =
     ti\<lparr>GetTableRecord := (GetTableRecord ti)
          \<lparr>builder := \<lparr>Clauses = ['' WHERE name = ?''], Params = [Text ''Mario'']\<rparr>\<rparr>\<rparr>"





section \<open>Properties\<close>

lemmas conn_defs = db_Exec_def db_Prepare_def db_Preparex_def db_Queryx_def
  stmt_Exec_def stmt_Queryx_def stmt_Close_def rows_Close_def

lemmas user_defs = NewUser_def NewTableRecord_def SetSQLConnection_def SetIsNew_def mem_def
  GetPrimaryKeyValue_def getTableRecordConnection_def row_of_def

lemmas query_defs = genSaveQuery_def genUpdateQuery_def genDeleteQuery_def loadByIDQuery_def
  AllField_def GetFieldMapper_def columnsNoPrimary_def getFieldsValueNoPrimary_def
  strings_Join_def BuildQuery_def

text \<open>\<^verbatim>\<open>LoadByID\<close> with the text of its query folded into \<open>loadByIDQuery\<close>.\<close>

lemma LoadByID_eq:
  "LoadByID ti id' s =
     (case db_Preparex (db (GetTableRecord ti)) (loadByIDQuery ti) s of
        (Some err, s1) \<Rightarrow> (Some err, ti, s1)
      | (None, s1) \<Rightarrow>
          (case stmt_Queryx (db (GetTableRecord ti)) (loadByIDQuery ti) [Int64 id'] s1 of
             (Inl err, s2) \<Rightarrow> (Some err, ti, stmt_Close (loadByIDQuery ti) s2)
           | (Inr rows, s2) \<Rightarrow>
               (case rows of
                  [] \<Rightarrow> (None, ti, stmt_Close (loadByIDQuery ti) (rows_Close s2))
                | r # _ \<Rightarrow>
                    (fst (LoadFromRow r ti), snd (LoadFromRow r ti),
                     stmt_Close (loadByIDQuery ti) (rows_Close s2)))))"
  by (simp add: LoadByID_def loadByIDQuery_def Let_def getTableRecordConnection_def
      split: prod.splits option.splits sum.splits list.splits)

subsection \<open>Read-only entities and Save\<close>

text \<open>
  Claim C2. For every entity whose record is read-only, \<open>Save\<close> fails with the
  read-only error, and neither the entity nor the state of the database changes: the world
  is the one before the call and the record of connector calls has not grown, so no
  statement was issued and no row was written.
\<close>

theorem Save_read_only:
  assumes "isReadOnly (GetTableRecord ti)"
  shows "Save ti s = (Some (errors_New ''Read-only model''), ti, s)"
  using assms by (simp add: Save_def)

theorem Save_read_only_witness:
  "isReadOnly (GetTableRecord (NewUser True True mem mario)) \<and>
   Save (NewUser True True mem mario) db0 =
     (Some (errors_New ''Read-only model''), NewUser True True mem mario, db0) \<and>
   calls db0 = [] \<and> table (world db0) = []"
proof -
  have ro: "isReadOnly (GetTableRecord (NewUser True True mem mario))"
    by (simp add: user_defs)
  show ?thesis
    using ro Save_read_only [OF ro, of db0] by (simp add: db0_def)
qed

subsection \<open>LoadByID when no row matches\<close>

text \<open>
  Claim C4. For every entity and every id, when the statement of \<open>LoadByID\<close> is prepared
  and its query returns no row, \<open>LoadByID\<close> returns no error and the entity it leaves is
  the entity it was given, mapped fields and record state alike.
\<close>

theorem LoadByID_no_row:
  assumes "Preparex (db (GetTableRecord ti)) (loadByIDQuery ti) (world s) = (None, w1)"
    and "Stmt_Queryx (db (GetTableRecord ti)) (loadByIDQuery ti) [Int64 id'] w1 = (Inr [], w2)"
  shows "LoadByID ti id' s =
           (None, ti,
            \<lparr>world = w2,
             calls = calls s @ [Preparex_call (loadByIDQuery ti),
                                Stmt_Queryx_call (loadByIDQuery ti) [Int64 id'],
                                Rows_Close_call, Stmt_Close_call (loadByIDQuery ti)]\<rparr>)"
  using assms
  by (simp add: LoadByID_eq conn_defs)

theorem LoadByID_no_row_witness:
  "Preparex mem (loadByIDQuery (NewUser False False mem marco1)) (world db0) = (None, world db0) \<and>
   Stmt_Queryx mem (loadByIDQuery (NewUser False False mem marco1)) [Int64 7] (world db0) =
     (Inr [], world db0) \<and>
   fst (LoadByID (NewUser False False mem marco1) 7 db0) = None \<and>
   fst (snd (LoadByID (NewUser False False mem marco1) 7 db0)) = NewUser False False mem marco1"
proof -
  let ?ti = "NewUser False False mem marco1"
  have c: "db (GetTableRecord ?ti) = mem" by (simp add: user_defs)
  have p: "Preparex (db (GetTableRecord ?ti)) (loadByIDQuery ?ti) (world db0) = (None, world db0)"
    by (simp add: user_defs)
  have q: "Stmt_Queryx (db (GetTableRecord ?ti)) (loadByIDQuery ?ti) [Int64 7] (world db0) =
             (Inr [], world db0)"
    by (simp add: user_defs db0_def)
  show ?thesis
    using p q LoadByID_no_row [OF p q] by (simp add: c)
qed

subsection \<open>Saving a new entity\<close>

lemma save_eq:
  assumes "Exec (db (GetTableRecord ti)) (genSaveQuery ti) (getFieldsValueNoPrimary ti) (world s) = (Inr res, w1)"
    and "LastInsertId res = Inr id'"
  shows "save ti s =
           (case LoadByID ti id' \<lparr>world = w1, calls = calls s @ [Exec_call (genSaveQuery ti) (getFieldsValueNoPrimary ti)]\<rparr> of
              (Some err, tiL, s2) \<Rightarrow> (Some err, tiL, s2)
            | (None, tiL, s2) \<Rightarrow> (None, tiL\<lparr>GetTableRecord := SetIsNew False (GetTableRecord tiL)\<rparr>, s2))"
  using assms by (simp add: save_def executeSaveUpdateQuery_def db_Exec_def)

lemma LoadByID_calls: "\<exists>rest. calls (snd (snd (LoadByID ti k s))) = calls s @ rest"
  by (simp add: LoadByID_eq conn_defs split: prod.splits option.splits sum.splits list.splits)

lemma executeSaveUpdateQuery_state:
  "snd (executeSaveUpdateQuery t query params s) =
     \<lparr>world = snd (Exec (db t) query params (world s)),
      calls = calls s @ [Exec_call query params]\<rparr>"
  by (simp add: executeSaveUpdateQuery_def db_Exec_def split: prod.splits sum.splits)

lemma save_first_call:
  "\<exists>rest. calls (snd (snd (save ti s))) =
      calls s @ Exec_call (genSaveQuery ti) (getFieldsValueNoPrimary ti) # rest"
proof -
  let ?q = "genSaveQuery ti" and ?v = "getFieldsValueNoPrimary ti"
  obtain k e s1 where E: "executeSaveUpdateQuery (GetTableRecord ti) ?q ?v s = ((k, e), s1)"
    by (metis surj_pair)
  have s1: "calls s1 = calls s @ [Exec_call ?q ?v]"
    using executeSaveUpdateQuery_state [of "GetTableRecord ti" ?q ?v s] E by simp
  show ?thesis
  proof (cases e)
    case (Some err)
    with E s1 show ?thesis by (simp add: save_def)
  next
    case None
    obtain rest where "calls (snd (snd (LoadByID ti k s1))) = calls s1 @ rest"
      using LoadByID_calls by blast
    with E s1 None show ?thesis
      by (auto simp: save_def split: prod.splits option.splits)
  qed
qed

lemma save_success:
  assumes "save ti s = (None, ti', s')"
  shows "\<exists>res0 w0 k tiL.
           Exec (db (GetTableRecord ti)) (genSaveQuery ti) (getFieldsValueNoPrimary ti) (world s) = (Inr res0, w0) \<and>
           LastInsertId res0 = Inr k \<and>
           LoadByID ti k \<lparr>world = w0, calls = calls s @ [Exec_call (genSaveQuery ti) (getFieldsValueNoPrimary ti)]\<rparr> = (None, tiL, s') \<and>
           ti' = tiL\<lparr>GetTableRecord := SetIsNew False (GetTableRecord tiL)\<rparr>"
  using assms
  by (auto simp: save_def executeSaveUpdateQuery_def db_Exec_def Let_def
      split: prod.splits option.splits sum.splits)

lemma Save_new: "isNew (GetTableRecord ti) \<Longrightarrow> \<not> isReadOnly (GetTableRecord ti) \<Longrightarrow> Save ti s = save ti s"
  by (simp add: Save_def split: prod.splits option.splits)

text \<open>
  Claim C1. For every new entity that is not read-only, \<open>Save\<close> first executes the insert
  statement with the values of the fields other than the primary key; when the connector
  returns the generated key, \<open>Save\<close> goes on as \<open>LoadByID\<close> with that key, run in the
  state the insert left, and after a successful load sets \<open>isNew\<close> to false; and a \<open>Save\<close>
  that returns no error has gone through exactly these steps, in this order.
\<close>

theorem Save_new_order:
  assumes "isNew (GetTableRecord ti)" and "\<not> isReadOnly (GetTableRecord ti)"
  shows "(\<exists>rest. calls (snd (snd (Save ti s))) =
            calls s @ Exec_call (genSaveQuery ti) (getFieldsValueNoPrimary ti) # rest) \<and>
         (Exec (db (GetTableRecord ti)) (genSaveQuery ti) (getFieldsValueNoPrimary ti) (world s) = (Inr res, w1) \<and>
          LastInsertId res = Inr id' \<longrightarrow>
            Save ti s =
              (case LoadByID ti id'
                      \<lparr>world = w1,
                       calls = calls s @ [Exec_call (genSaveQuery ti) (getFieldsValueNoPrimary ti)]\<rparr> of
                 (Some err, tiL, s2) \<Rightarrow> (Some err, tiL, s2)
               | (None, tiL, s2) \<Rightarrow>
                   (None, tiL\<lparr>GetTableRecord := SetIsNew False (GetTableRecord tiL)\<rparr>, s2))) \<and>
         (Save ti s = (None, ti', s') \<longrightarrow>
            \<not> isNew (GetTableRecord ti') \<and>
            (\<exists>res0 w0 k tiL.
               Exec (db (GetTableRecord ti)) (genSaveQuery ti) (getFieldsValueNoPrimary ti) (world s) = (Inr res0, w0) \<and>
               LastInsertId res0 = Inr k \<and>
               LoadByID ti k
                 \<lparr>world = w0,
                  calls = calls s @ [Exec_call (genSaveQuery ti) (getFieldsValueNoPrimary ti)]\<rparr> =
                 (None, tiL, s') \<and>
               ti' = tiL\<lparr>GetTableRecord := SetIsNew False (GetTableRecord tiL)\<rparr>))"
proof -
  have S: "Save ti s = save ti s" using assms by (rule Save_new)
  have first: "\<exists>rest. calls (snd (snd (Save ti s))) =
      calls s @ Exec_call (genSaveQuery ti) (getFieldsValueNoPrimary ti) # rest"
    unfolding S by (rule save_first_call)
  have second: "Exec (db (GetTableRecord ti)) (genSaveQuery ti) (getFieldsValueNoPrimary ti) (world s) = (Inr res, w1) \<and>
          LastInsertId res = Inr id' \<longrightarrow>
            Save ti s =
              (case LoadByID ti id'
                      \<lparr>world = w1,
                       calls = calls s @ [Exec_call (genSaveQuery ti) (getFieldsValueNoPrimary ti)]\<rparr> of
                 (Some err, tiL, s2) \<Rightarrow> (Some err, tiL, s2)
               | (None, tiL, s2) \<Rightarrow>
                   (None, tiL\<lparr>GetTableRecord := SetIsNew False (GetTableRecord tiL)\<rparr>, s2))"
    unfolding S by (intro impI, elim conjE, rule save_eq)
  have third: "Save ti s = (None, ti', s') \<longrightarrow>
            \<not> isNew (GetTableRecord ti') \<and>
            (\<exists>res0 w0 k tiL.
               Exec (db (GetTableRecord ti)) (genSaveQuery ti) (getFieldsValueNoPrimary ti) (world s) = (Inr res0, w0) \<and>
               LastInsertId res0 = Inr k \<and>
               LoadByID ti k
                 \<lparr>world = w0,
                  calls = calls s @ [Exec_call (genSaveQuery ti) (getFieldsValueNoPrimary ti)]\<rparr> =
                 (None, tiL, s') \<and>
               ti' = tiL\<lparr>GetTableRecord := SetIsNew False (GetTableRecord tiL)\<rparr>)"
  proof
    assume "Save ti s = (None, ti', s')"
    then have "save ti s = (None, ti', s')" by (simp add: S)
    from save_success [OF this] obtain res0 w0 k tiL where
      *: "Exec (db (GetTableRecord ti)) (genSaveQuery ti) (getFieldsValueNoPrimary ti) (world s) = (Inr res0, w0)"
         "LastInsertId res0 = Inr k"
         "LoadByID ti k \<lparr>world = w0, calls = calls s @ [Exec_call (genSaveQuery ti) (getFieldsValueNoPrimary ti)]\<rparr> = (None, tiL, s')"
         "ti' = tiL\<lparr>GetTableRecord := SetIsNew False (GetTableRecord tiL)\<rparr>"
      by blast
    have "\<not> isNew (GetTableRecord ti')" using *(4) by (simp add: SetIsNew_def)
    with * show "\<not> isNew (GetTableRecord ti') \<and>
            (\<exists>res0 w0 k tiL.
               Exec (db (GetTableRecord ti)) (genSaveQuery ti) (getFieldsValueNoPrimary ti) (world s) = (Inr res0, w0) \<and>
               LastInsertId res0 = Inr k \<and>
               LoadByID ti k
                 \<lparr>world = w0,
                  calls = calls s @ [Exec_call (genSaveQuery ti) (getFieldsValueNoPrimary ti)]\<rparr> =
                 (None, tiL, s') \<and>
               ti' = tiL\<lparr>GetTableRecord := SetIsNew False (GetTableRecord tiL)\<rparr>)"
      by blast
  qed
  from first second third show ?thesis by blast
qed

lemma Save_mario:
  "Save (NewUser True False mem mario) db0 =
     (None, NewUser False False mem mario1,
      \<lparr>world = \<lparr>table = [mario1], nextID = 2\<rparr>,
       calls = [Exec_call ''INSERT INTO users (name,lastname,gender) VALUES (?,?,?)''
                  [Text ''Mario'', Text ''Rossi'', Text ''M''],
                Preparex_call ''SELECT id,name,lastname,gender FROM users WHERE id = ?'',
                Stmt_Queryx_call ''SELECT id,name,lastname,gender FROM users WHERE id = ?'' [Int64 1],
                Rows_Close_call,
                Stmt_Close_call ''SELECT id,name,lastname,gender FROM users WHERE id = ?'']\<rparr>)"
  by (simp add: Save_def save_def executeSaveUpdateQuery_def LoadByID_def LoadFromRow_def Let_def
      conn_defs user_defs query_defs db0_def mario_def mario1_def)

theorem Save_new_order_witness:
  "isNew (GetTableRecord (NewUser True False mem mario)) \<and>
   \<not> isReadOnly (GetTableRecord (NewUser True False mem mario)) \<and>
   Exec mem ''INSERT INTO users (name,lastname,gender) VALUES (?,?,?)''
     [Text ''Mario'', Text ''Rossi'', Text ''M''] (world db0) =
     (Inr \<lparr>LastInsertId = Inr 1, RowsAffected = Inr 1\<rparr>, \<lparr>table = [mario1], nextID = 2\<rparr>) \<and>
   Save (NewUser True False mem mario) db0 =
     (None, NewUser False False mem mario1,
      \<lparr>world = \<lparr>table = [mario1], nextID = 2\<rparr>,
       calls = [Exec_call ''INSERT INTO users (name,lastname,gender) VALUES (?,?,?)''
                  [Text ''Mario'', Text ''Rossi'', Text ''M''],
                Preparex_call ''SELECT id,name,lastname,gender FROM users WHERE id = ?'',
                Stmt_Queryx_call ''SELECT id,name,lastname,gender FROM users WHERE id = ?'' [Int64 1],
                Rows_Close_call,
                Stmt_Close_call ''SELECT id,name,lastname,gender FROM users WHERE id = ?'']\<rparr>) \<and>
   \<not> isNew (GetTableRecord (NewUser False False mem mario1))"
proof -
  let ?ti = "NewUser True False mem mario"
  have new: "isNew (GetTableRecord ?ti)" and rw: "\<not> isReadOnly (GetTableRecord ?ti)"
    by (simp_all add: user_defs)
  have ex: "Exec mem ''INSERT INTO users (name,lastname,gender) VALUES (?,?,?)''
     [Text ''Mario'', Text ''Rossi'', Text ''M''] (world db0) =
     (Inr \<lparr>LastInsertId = Inr 1, RowsAffected = Inr 1\<rparr>, \<lparr>table = [mario1], nextID = 2\<rparr>)"
    by (simp add: mem_def db0_def mario1_def)
  from Save_new_order [OF new rw, of db0 _ _ _ "NewUser False False mem mario1"]
  have "\<And>s'. Save ?ti db0 = (None, NewUser False False mem mario1, s') \<longrightarrow>
          \<not> isNew (GetTableRecord (NewUser False False mem mario1))"
    by blast
  with new rw ex Save_mario show ?thesis by blast
qed

lemma LoadFromRow_error:
  "fst (LoadFromRow r ti) = Some err \<Longrightarrow>
     GetTableRecord (snd (LoadFromRow r ti)) = GetTableRecord ti"
  by (auto simp: LoadFromRow_def split: prod.splits option.splits)

lemma LoadByID_error_record:
  assumes "LoadByID ti k s = (Some err, ti', s')"
  shows "GetTableRecord ti' = GetTableRecord ti"
  using assms
  by (auto simp: LoadByID_eq LoadFromRow_error
      split: prod.splits option.splits sum.splits list.splits)

text \<open>
  Claim C10. For every new entity, when the insert succeeds and the reload by the
  generated key fails, \<open>Save\<close> returns the error of the reload, the entity is still marked
  new, and the insert has reached the connector: it is the first call recorded after the
  calls made before.
\<close>

theorem Save_reload_failure:
  assumes "isNew (GetTableRecord ti)" and "\<not> isReadOnly (GetTableRecord ti)"
    and "Exec (db (GetTableRecord ti)) (genSaveQuery ti) (getFieldsValueNoPrimary ti) (world s) =
           (Inr res, w1)"
    and "LastInsertId res = Inr id'"
    and "LoadByID ti id'
           \<lparr>world = w1, calls = calls s @ [Exec_call (genSaveQuery ti) (getFieldsValueNoPrimary ti)]\<rparr> =
           (Some err, ti', s')"
  shows "Save ti s = (Some err, ti', s') \<and> isNew (GetTableRecord ti') \<and>
         (\<exists>rest. calls s' =
            calls s @ Exec_call (genSaveQuery ti) (getFieldsValueNoPrimary ti) # rest)"
proof -
  have S: "Save ti s = (Some err, ti', s')"
    using assms(1,2) save_eq [OF assms(3,4)] assms(5) by (simp add: Save_new)
  have "GetTableRecord ti' = GetTableRecord ti"
    using assms(5) by (rule LoadByID_error_record)
  then have N: "isNew (GetTableRecord ti')" using assms(1) by simp
  obtain rest where
    "calls s' = (calls s @ [Exec_call (genSaveQuery ti) (getFieldsValueNoPrimary ti)]) @ rest"
    using LoadByID_calls [of ti id'
        "\<lparr>world = w1, calls = calls s @ [Exec_call (genSaveQuery ti) (getFieldsValueNoPrimary ti)]\<rparr>"]
      assms(5) by auto
  then have "calls s' = calls s @ Exec_call (genSaveQuery ti) (getFieldsValueNoPrimary ti) # rest"
    by simp
  with S N show ?thesis by blast
qed

theorem Save_reload_failure_witness:
  "isNew (GetTableRecord (NewUser True False mem_prepare_fails mario)) \<and>
   \<not> isReadOnly (GetTableRecord (NewUser True False mem_prepare_fails mario)) \<and>
   Save (NewUser True False mem_prepare_fails mario) db0 =
     (Some (ConnectorError ''connection lost''), NewUser True False mem_prepare_fails mario,
      \<lparr>world = \<lparr>table = [mario1], nextID = 2\<rparr>,
       calls = [Exec_call ''INSERT INTO users (name,lastname,gender) VALUES (?,?,?)''
                  [Text ''Mario'', Text ''Rossi'', Text ''M''],
                Preparex_call ''SELECT id,name,lastname,gender FROM users WHERE id = ?'']\<rparr>)"
proof -
  let ?ti = "NewUser True False mem_prepare_fails mario"
  let ?q = "''INSERT INTO users (name,lastname,gender) VALUES (?,?,?)''"
  let ?v = "[Text ''Mario'', Text ''Rossi'', Text ''M'']"
  have new: "isNew (GetTableRecord ?ti)" and rw: "\<not> isReadOnly (GetTableRecord ?ti)"
    by (simp_all add: user_defs)
  have q: "genSaveQuery ?ti = ?q" and v: "getFieldsValueNoPrimary ?ti = ?v"
    by (simp_all add: query_defs NewUser_def mario_def)
  have ex: "Exec (db (GetTableRecord ?ti)) (genSaveQuery ?ti) (getFieldsValueNoPrimary ?ti) (world db0) =
     (Inr \<lparr>LastInsertId = Inr 1, RowsAffected = Inr 1\<rparr>, \<lparr>table = [mario1], nextID = 2\<rparr>)"
    unfolding q v by (simp add: user_defs mem_prepare_fails_def db0_def mario1_def)
  have li: "LastInsertId \<lparr>LastInsertId = Inr (1::int64), RowsAffected = Inr (1::int64)\<rparr> = Inr 1"
    by simp
  have ld: "LoadByID ?ti 1
      \<lparr>world = \<lparr>table = [mario1], nextID = 2\<rparr>,
       calls = calls db0 @ [Exec_call (genSaveQuery ?ti) (getFieldsValueNoPrimary ?ti)]\<rparr> =
     (Some (ConnectorError ''connection lost''), ?ti,
      \<lparr>world = \<lparr>table = [mario1], nextID = 2\<rparr>,
       calls = [Exec_call ?q ?v,
                Preparex_call ''SELECT id,name,lastname,gender FROM users WHERE id = ?'']\<rparr>)"
    unfolding q v
    by (simp add: LoadByID_def Let_def conn_defs user_defs query_defs mem_prepare_fails_def db0_def)
  from Save_reload_failure [OF new rw ex li ld] new rw show ?thesis by blast
qed

subsection \<open>Reading many rows\<close>

lemma loadRows_scan_failure:
  assumes "\<exists>r\<in>set rows. fst (r (mapped ntm)) \<noteq> None"
  shows "\<exists>err. loadRows ntm rows result = ([], Some err) \<and>
               (\<exists>r\<in>set rows. fst (r (mapped ntm)) = Some err)"
  using assms
proof (induction rows arbitrary: result)
  case Nil
  then show ?case by simp
next
  case (Cons r rows)
  obtain e f where rf: "r (mapped ntm) = (e, f)" by (metis surj_pair)
  show ?case
  proof (cases e)
    case (Some err)
    with rf show ?thesis by (auto simp: LoadFromRow_def)
  next
    case None
    with rf Cons.prems have "\<exists>r\<in>set rows. fst (r (mapped ntm)) \<noteq> None" by auto
    from Cons.IH [OF this] obtain err where
      "loadRows ntm rows (result @ [snd (LoadFromRow r ntm)]) = ([], Some err)"
      "\<exists>r\<in>set rows. fst (r (mapped ntm)) = Some err"
      by blast
    with rf None show ?thesis by (auto simp: LoadFromRow_def)
  qed
qed

text \<open>
  Claim C9. For \<open>All\<close> and for \<open>ExecQuery\<close>: when the query returns rows and some row
  among them does not scan into a fresh entity, the operation returns an error, which is
  the error of such a scan, and the empty collection, never the entities read before.
\<close>

theorem scan_failure_no_partial_result:
  assumes "r \<in> set rows" and "fst (r (mapped ntm)) \<noteq> None"
  shows "(Queryx (db (GetTableRecord ntm))
            (''SELECT '' @ AllField ntm @ '' FROM '' @ GetTableName ntm) (world s) = (Inr rows, w1) \<longrightarrow>
          (\<exists>err. fst (All_records ntm s) = ([], Some err) \<and>
                 (\<exists>r\<in>set rows. fst (r (mapped ntm)) = Some err))) \<and>
         (Preparex (db (GetTableRecord ti)) (BuildQuery (builder (GetTableRecord ti)) (GetTableName ti))
            (world s) = (None, w1) \<and>
          Stmt_Queryx (db (GetTableRecord ti)) (BuildQuery (builder (GetTableRecord ti)) (GetTableName ti))
            (Params (builder (GetTableRecord ti))) w1 = (Inr rows, w2) \<longrightarrow>
          (\<exists>err. fst (ExecQuery ti ntm s) = ([], Some err) \<and>
                 (\<exists>r\<in>set rows. fst (r (mapped ntm)) = Some err)))"
proof -
  from assms have "\<exists>r\<in>set rows. fst (r (mapped ntm)) \<noteq> None" by blast
  from loadRows_scan_failure [OF this, of "[]"] obtain err where
    L: "loadRows ntm rows [] = ([], Some err)" and E: "\<exists>r\<in>set rows. fst (r (mapped ntm)) = Some err"
    by blast
  have A: "Queryx (db (GetTableRecord ntm))
            (''SELECT '' @ AllField ntm @ '' FROM '' @ GetTableName ntm) (world s) = (Inr rows, w1) \<Longrightarrow>
           fst (All_records ntm s) = ([], Some err)"
    using L by (simp add: All_records_def Let_def db_Queryx_def)
  have B: "Preparex (db (GetTableRecord ti)) (BuildQuery (builder (GetTableRecord ti)) (GetTableName ti))
            (world s) = (None, w1) \<Longrightarrow>
          Stmt_Queryx (db (GetTableRecord ti)) (BuildQuery (builder (GetTableRecord ti)) (GetTableName ti))
            (Params (builder (GetTableRecord ti))) w1 = (Inr rows, w2) \<Longrightarrow>
          fst (ExecQuery ti ntm s) = ([], Some err)"
    using L by (simp add: ExecQuery_def PrepareStmt_def Let_def db_Preparex_def stmt_Queryx_def)
  from A B E show ?thesis by blast
qed

lemma All_bad_row:
  "All_records (NewUser True False mem_bad_row mario) db1 =
     (([], Some (ConnectorError ''converting NULL to string is unsupported'')),
      \<lparr>world = world db1, calls = [Queryx_call ''SELECT id,name,lastname,gender FROM users'']\<rparr>)"
  by (simp add: All_records_def Let_def LoadFromRow_def conn_defs user_defs query_defs
      mem_bad_row_def bad_row_def db1_def)

lemma ExecQuery_bad_row:
  "fst (ExecQuery (staged (NewUser False False mem_bad_row mario1)) (NewUser True False mem_bad_row mario) db1) =
     ([], Some (ConnectorError ''converting NULL to string is unsupported''))"
  by (simp add: ExecQuery_def PrepareStmt_def Let_def LoadFromRow_def conn_defs user_defs query_defs
      mem_bad_row_def bad_row_def db1_def staged_def)

theorem scan_failure_no_partial_result_witness:
  "bad_row \<in> set [row_of mario1, bad_row] \<and>
   fst (bad_row (mapped (NewUser True False mem_bad_row mario))) \<noteq> None \<and>
   Queryx mem_bad_row ''SELECT id,name,lastname,gender FROM users'' (world db1) =
     (Inr [row_of mario1, bad_row], world db1) \<and>
   fst (All_records (NewUser True False mem_bad_row mario) db1) =
     ([], Some (ConnectorError ''converting NULL to string is unsupported'')) \<and>
   fst (ExecQuery (staged (NewUser False False mem_bad_row mario1))
          (NewUser True False mem_bad_row mario) db1) =
     ([], Some (ConnectorError ''converting NULL to string is unsupported''))"
proof -
  let ?ntm = "NewUser True False mem_bad_row mario"
  have m: "bad_row \<in> set [row_of mario1, bad_row]" by simp
  have f: "fst (bad_row (mapped ?ntm)) \<noteq> None" by (simp add: bad_row_def)
  have q: "Queryx mem_bad_row ''SELECT id,name,lastname,gender FROM users'' (world db1) =
     (Inr [row_of mario1, bad_row], world db1)"
    by (simp add: mem_bad_row_def mem_def db1_def)
  note T = scan_failure_no_partial_result [OF m f, of db1 "world db1"
      "staged (NewUser False False mem_bad_row mario1)" "world db1"]
  show ?thesis using T m f q All_bad_row ExecQuery_bad_row by simp
qed






subsection \<open>Updating a persisted entity\<close>




subsection \<open>Save followed by LoadByID\<close>
















subsection \<open>The Query Builder after ExecQuery\<close>

text \<open>A successful \<open>ExecQuery\<close> leaves the Query Builder of the entity empty.\<close>

lemma ExecQuery_success_resets:
  assumes "snd (fst (ExecQuery ti ntm s)) = None"
  shows "builder (GetTableRecord (fst (snd (ExecQuery ti ntm s)))) = \<lparr>Clauses = [], Params = []\<rparr>"
  using assms
  by (auto simp: ExecQuery_def Let_def ResetStmt_def split: prod.splits option.splits sum.splits)

text \<open>
  Claim C6 asks for an empty Query Builder after every \<open>ExecQuery\<close>, also after one that
  returns an error. The code resets the builder only on the path that returns the list:
  here the query of the prepared statement fails, \<open>ExecQuery\<close> returns the error, and the
  staged clause and its parameter are still on the entity.
\<close>

theorem ExecQuery_error_keeps_builder:
  "ExecQuery (staged (NewUser False False mem_query_fails mario1))
      (NewUser True False mem_query_fails mario) db1 =
     (([], Some (ConnectorError ''connection lost'')),
      staged (NewUser False False mem_query_fails mario1),
      \<lparr>world = world db1,
       calls = [Preparex_call ''SELECT * FROM users WHERE name = ?'',
                Stmt_Queryx_call ''SELECT * FROM users WHERE name = ?'' [Text ''Mario''],
                Stmt_Close_call ''SELECT * FROM users WHERE name = ?'']\<rparr>) \<and>
   builder (GetTableRecord (staged (NewUser False False mem_query_fails mario1))) =
     \<lparr>Clauses = ['' WHERE name = ?''], Params = [Text ''Mario'']\<rparr>"
  by (simp add: ExecQuery_def PrepareStmt_def Let_def conn_defs user_defs query_defs
      mem_query_fails_def staged_def db1_def)

subsection \<open>Delete\<close>

text \<open>
  The three error checks of \<open>Delete\<close>: the errors of \<^verbatim>\<open>Prepare\<close> and of \<^verbatim>\<open>Exec\<close> are
  returned as they are, the error of \<^verbatim>\<open>RowsAffected\<close> is not returned at all.
\<close>

lemma Delete_Prepare_error:
  assumes "Prepare (db (GetTableRecord ti)) (genDeleteQuery ti) (world s) = (Some err, w1)"
  shows "fst (Delete ti s) = (0, Some err)"
  using assms
  by (simp add: Delete_def Let_def getTableRecordConnection_def db_Prepare_def)

lemma Delete_Exec_error:
  assumes "Prepare (db (GetTableRecord ti)) (genDeleteQuery ti) (world s) = (None, w1)"
    and "Stmt_Exec (db (GetTableRecord ti)) (genDeleteQuery ti) [Int64 (GetPrimaryKeyValue ti)] w1 =
           (Inl err, w2)"
  shows "fst (Delete ti s) = (0, Some err)"
  using assms
  by (simp add: Delete_def Let_def getTableRecordConnection_def db_Prepare_def stmt_Exec_def)

lemma Delete_RowsAffected_error:
  assumes "Prepare (db (GetTableRecord ti)) (genDeleteQuery ti) (world s) = (None, w1)"
    and "Stmt_Exec (db (GetTableRecord ti)) (genDeleteQuery ti) [Int64 (GetPrimaryKeyValue ti)] w1 =
           (Inr res, w2)"
    and "RowsAffected res = Inl err"
  shows "fst (Delete ti s) = (0, None)"
  using assms
  by (simp add: Delete_def Let_def getTableRecordConnection_def db_Prepare_def stmt_Exec_def)

text \<open>
  Claim C3 asks that every error of the connector reaches the caller unchanged. \<open>Delete\<close>
  checks the error of \<^verbatim>\<open>RowsAffected\<close> and then returns \<^verbatim>\<open>(0, nil)\<close>: here the
  driver reports that error after deleting the row, and the caller of \<open>Delete\<close> sees zero
  rows and no error.
\<close>

theorem Delete_drops_RowsAffected_error:
  "Stmt_Exec mem_no_rows_affected ''DELETE FROM users WHERE id = ?'' [Int64 1] (world db1) =
     (Inr \<lparr>LastInsertId = Inr 0,
           RowsAffected = Inl (ConnectorError ''RowsAffected is not supported'')\<rparr>,
      \<lparr>table = [], nextID = 2\<rparr>) \<and>
   Delete (NewUser False False mem_no_rows_affected mario1) db1 =
     ((0, None),
      \<lparr>world = \<lparr>table = [], nextID = 2\<rparr>,
       calls = [Prepare_call ''DELETE FROM users WHERE id = ?'',
                Stmt_Exec_call ''DELETE FROM users WHERE id = ?'' [Int64 1],
                Stmt_Close_call ''DELETE FROM users WHERE id = ?'']\<rparr>)"
  by (simp add: Delete_def Let_def conn_defs user_defs query_defs
      mem_no_rows_affected_def db1_def mario1_def)

text \<open>
  Claim C5 asks that a read-only entity blocks \<open>Delete\<close> as it blocks \<open>Save\<close>. \<open>Delete\<close>
  never reads the flag: on the same read-only entity \<open>Save\<close> fails with the read-only
  error, while \<open>Delete\<close> prepares and executes its statement, reports one affected row and
  leaves the table without the row.
\<close>

theorem Delete_read_only_removes_row:
  "isReadOnly (GetTableRecord (NewUser False True mem mario1)) \<and>
   table (world db1) = [mario1] \<and>
   fst (Save (NewUser False True mem mario1) db1) = Some (errors_New ''Read-only model'') \<and>
   Delete (NewUser False True mem mario1) db1 =
     ((1, None),
      \<lparr>world = \<lparr>table = [], nextID = 2\<rparr>,
       calls = [Prepare_call ''DELETE FROM users WHERE id = ?'',
                Stmt_Exec_call ''DELETE FROM users WHERE id = ?'' [Int64 1],
                Stmt_Close_call ''DELETE FROM users WHERE id = ?'']\<rparr>)"
  by (simp add: Delete_def Save_def Let_def conn_defs user_defs query_defs db1_def mario1_def)

end
